theory Spec2Isabelle
  imports Main "HOL-Library.Sublist" "HOL-Library.Word"
begin

section \<open>Values of the host language\<close>

text \<open>
  The facade in \<^verbatim>\<open>src/dist/x/services.js\<close> passes around untyped JavaScript values:
  whatever the underlying client resolves with, whatever it throws, and the objects the
  facade builds itself. They are modelled by one datatype. An object lists its enumerable
  own properties in enumeration order; \<open>JError\<close> is an \<^verbatim>\<open>Error\<close> object (class name and
  message).

  The numbers of the model are the special values of the type \<^verbatim>\<open>number\<close> and the integers
  from \<open>- 2 ^ 53\<close> to \<open>2 ^ 53 - 1\<close>, each of which is a double and is printed with all
  its digits. All three falsy numbers are there: \<^verbatim>\<open>0\<close>, \<^verbatim>\<open>-0\<close> and \<^verbatim>\<open>NaN\<close>. The numbers
  left out (fractions, larger magnitudes) are truthy.

  A thenable is an object with a \<^verbatim>\<open>then\<close> method. What matters of it is what the method
  does with the two callbacks it is given: it calls the first with a value, or the second
  with a reason (throwing from \<^verbatim>\<open>then\<close> counts as that), or neither.
\<close>

datatype number = NaN | PosInfinity | NegInfinity | NegZero | Integer "54 word"

datatype jsval =
    JUndefined
  | JNull
  | JBool bool
  | JNum number
  | JStr string
  | JArr "jsval list"
  | JObj "(string \<times> jsval) list"
  | JError string string
  | JThenableFulfil jsval
  | JThenableReject jsval
  | JThenablePending

text \<open>
  Reading a property, \<^verbatim>\<open>v.k\<close>: on \<^verbatim>\<open>undefined\<close> and \<^verbatim>\<open>null\<close> the read throws a TypeError;
  on an object it is the property or \<^verbatim>\<open>undefined\<close>. The facade only reads the keys
  \<^verbatim>\<open>data\<close>, \<^verbatim>\<open>id\<close> and \<^verbatim>\<open>liked\<close>, which primitives, arrays, plain errors and the thenables
  of the model do not have.
\<close>

fun get_prop :: "jsval \<Rightarrow> string \<Rightarrow> jsval + jsval" where
  "get_prop JUndefined k =
     Inl (JError ''TypeError''
            (''Cannot read properties of undefined (reading '' @ CHR 0x27 # k @ CHR 0x27 # '')''))"
| "get_prop JNull k =
     Inl (JError ''TypeError''
            (''Cannot read properties of null (reading '' @ CHR 0x27 # k @ CHR 0x27 # '')''))"
| "get_prop (JObj kvs) k = Inr (case map_of kvs k of None \<Rightarrow> JUndefined | Some v \<Rightarrow> v)"
| "get_prop v k = Inr JUndefined"

text \<open>
  Truthiness of an optional string (\<^verbatim>\<open>undefined\<close> and the empty string are falsy) and of
  a number (\<^verbatim>\<open>0\<close>, \<^verbatim>\<open>-0\<close> and \<^verbatim>\<open>NaN\<close> are falsy).
\<close>

fun truthy_number :: "number \<Rightarrow> bool" where
  "truthy_number NaN = False"
| "truthy_number NegZero = False"
| "truthy_number (Integer i) = (i \<noteq> 0)"
| "truthy_number n = True"

definition truthy_string :: "string option \<Rightarrow> bool" where
  "truthy_string s = (case s of None \<Rightarrow> False | Some t \<Rightarrow> t \<noteq> [])"

text \<open>\<^verbatim>\<open>String.prototype.includes\<close>: the pattern occurs somewhere as a contiguous run.\<close>

fun str_includes :: "string \<Rightarrow> string \<Rightarrow> bool" where
  "str_includes [] pat = (pat = [])"
| "str_includes (c # s) pat = (prefix pat (c # s) \<or> str_includes s pat)"


section \<open>JSON.stringify\<close>

text \<open>
  \<^verbatim>\<open>getUserTweets\<close> serialises its answer with \<^verbatim>\<open>JSON.stringify\<close>. The fragment of the
  built-in that the value datatype needs: a property whose value is \<^verbatim>\<open>undefined\<close> is
  left out of an object and becomes \<^verbatim>\<open>null\<close> in an array; an \<^verbatim>\<open>Error\<close> has no
  enumerable property and prints as the empty object, and so does a thenable, whose
  \<^verbatim>\<open>then\<close> is a function; \<^verbatim>\<open>NaN\<close> and the infinities print as \<^verbatim>\<open>null\<close> and \<^verbatim>\<open>-0\<close> as
  \<^verbatim>\<open>0\<close>; strings are quoted with the escapes of the standard.
\<close>

definition digit_char :: "nat \<Rightarrow> char" where
  "digit_char n = ''0123456789abcdef'' ! (n mod 16)"

fun digits :: "nat \<Rightarrow> string" where
  "digits n = (if n < 10 then [digit_char n] else digits (n div 10) @ [digit_char (n mod 10)])"

declare digits.simps [simp del]

definition show_int :: "int \<Rightarrow> string" where
  "show_int i = (if i < 0 then CHR ''-'' # digits (nat (- i)) else digits (nat i))"

fun show_number :: "number \<Rightarrow> string" where
  "show_number NaN = ''null''"
| "show_number PosInfinity = ''null''"
| "show_number NegInfinity = ''null''"
| "show_number NegZero = ''0''"
| "show_number (Integer i) = show_int (sint i)"

definition quote_char :: "char \<Rightarrow> string" where
  "quote_char c =
     (let n = (of_char c :: nat) in
      if n = 0x22 then [CHR 0x5C, CHR 0x22]
      else if n = 0x5C then [CHR 0x5C, CHR 0x5C]
      else if n = 0x08 then [CHR 0x5C, CHR ''b'']
      else if n = 0x0C then [CHR 0x5C, CHR ''f'']
      else if n = 0x0A then [CHR 0x5C, CHR ''n'']
      else if n = 0x0D then [CHR 0x5C, CHR ''r'']
      else if n = 0x09 then [CHR 0x5C, CHR ''t'']
      else if n < 0x20 then [CHR 0x5C, CHR ''u'', CHR ''0'', CHR ''0'', digit_char (n div 16), digit_char n]
      else [c])"

definition quote_string :: "string \<Rightarrow> string" where
  "quote_string s = CHR 0x22 # concat (map quote_char s) @ [CHR 0x22]"

fun join :: "string \<Rightarrow> string list \<Rightarrow> string" where
  "join sep [] = []"
| "join sep [x] = x"
| "join sep (x # y # ys) = x @ sep @ join sep (y # ys)"

text \<open>\<open>None\<close> is the result \<^verbatim>\<open>undefined\<close> of serialising \<^verbatim>\<open>undefined\<close>.\<close>

fun JSON_stringify :: "jsval \<Rightarrow> string option"
  and stringify_elements :: "jsval list \<Rightarrow> string list"
  and stringify_properties :: "(string \<times> jsval) list \<Rightarrow> string list" where
  "JSON_stringify JUndefined = None"
| "JSON_stringify JNull = Some ''null''"
| "JSON_stringify (JBool b) = Some (if b then ''true'' else ''false'')"
| "JSON_stringify (JNum n) = Some (show_number n)"
| "JSON_stringify (JStr s) = Some (quote_string s)"
| "JSON_stringify (JArr vs) = Some (''['' @ join '','' (stringify_elements vs) @ '']'')"
| "JSON_stringify (JObj kvs) = Some (''{'' @ join '','' (stringify_properties kvs) @ ''}'')"
| "JSON_stringify (JError c m) = Some ''{}''"
| "JSON_stringify (JThenableFulfil v) = Some ''{}''"
| "JSON_stringify (JThenableReject e) = Some ''{}''"
| "JSON_stringify JThenablePending = Some ''{}''"
| "stringify_elements [] = []"
| "stringify_elements (v # vs) =
     (case JSON_stringify v of None \<Rightarrow> ''null'' | Some t \<Rightarrow> t) # stringify_elements vs"
| "stringify_properties [] = []"
| "stringify_properties ((k, v) # kvs) =
     (case JSON_stringify v of
        None \<Rightarrow> stringify_properties kvs
      | Some t \<Rightarrow> (quote_string k @ '':'' @ t) # stringify_properties kvs)"


section \<open>Process state\<close>

text \<open>The four credential variables of \<^verbatim>\<open>process.env\<close>; \<open>None\<close> is an unset variable.\<close>

record env =
  TWITTER_API_KEY :: "string option"
  TWITTER_API_KEY_SECRET :: "string option"
  TWITTER_ACCESS_TOKEN :: "string option"
  TWITTER_ACCESS_TOKEN_SECRET :: "string option"

text \<open>The argument of \<^verbatim>\<open>new TwitterApi({...})\<close>.\<close>

record TwitterApiTokens =
  appKey :: string
  appSecret :: string
  accessToken :: string
  accessSecret :: string

text \<open>
  A \<^verbatim>\<open>TwitterService\<close> object has the one field \<^verbatim>\<open>client\<close>: \<^verbatim>\<open>null\<close> (\<open>None\<close>) or a
  reference to a \<^verbatim>\<open>TwitterApi\<close> object.
\<close>

record TwitterService =
  client :: "nat option"

datatype EUploadMimeType = Jpeg | Png | Gif | Webp

text \<open>
  The buffer handed to the upload is \<^verbatim>\<open>Buffer.from(text, 'base64')\<close>; it is represented
  by the text it is decoded from.
\<close>

datatype buffer = Buffer_from_base64 string

text \<open>One constructor for each method of the underlying client that the facade calls.\<close>

datatype request =
    UserTimeline string "string list" number "string option"
  | SingleTweet string
  | UserMentionTimeline string number "string option"
  | Quote string string
  | Reply string string
  | UploadMedia buffer EUploadMimeType string
  | TweetMedia string "jsval list"
  | Tweet string
  | Me
  | Like jsval string
  | Follow jsval string
  | Unfollow jsval string
  | UserByUsername string
  | Search string number
  | TrendsAvailable
  | CreateListReq string "string option" bool
  | AddListMemberReq string string
  | RemoveListMemberReq string string
  | ListsOwned jsval

text \<open>
  The state the code reads and writes: the environment, the static field
  \<^verbatim>\<open>TwitterService.instance\<close>, the service objects allocated so far (a reference is an
  index), the \<^verbatim>\<open>TwitterApi\<close> objects constructed so far (a reference is an index), and the
  log of the calls made on them: which client object, which method and arguments.
\<close>

record world =
  process_env :: env
  static_instance :: "nat option"
  services :: "TwitterService list"
  apis :: "TwitterApiTokens list"
  trace :: "(nat \<times> request) list"

text \<open>
  The remote side is not part of the repository. It is a parameter: given the calls made
  so far and the next call, it says how the \<^verbatim>\<open>await\<close> of that call ends: the awaited
  promise is rejected with a reason, which \<^verbatim>\<open>await\<close> throws (\<open>Inl\<close>), or fulfilled with
  a value (\<open>Inr\<close>). Every call is settled.
\<close>

type_synonym remote = "(nat \<times> request) list \<Rightarrow> nat \<times> request \<Rightarrow> jsval + jsval"


section \<open>Control flow: exceptions, try/catch, async functions\<close>

text \<open>A statement sequence runs on the state and either throws (\<open>Inl\<close>) or yields a value.\<close>

type_synonym 'a action = "world \<Rightarrow> (jsval + 'a) \<times> world"

definition ret :: "'a \<Rightarrow> 'a action" where
  "ret x w = (Inr x, w)"

definition seq :: "'a action \<Rightarrow> ('a \<Rightarrow> 'b action) \<Rightarrow> 'b action" where
  "seq m f w = (case m w of (Inl e, w') \<Rightarrow> (Inl e, w') | (Inr x, w') \<Rightarrow> f x w')"

text \<open>An expression that may throw and does not touch the state, such as a property read.\<close>

definition lift :: "jsval + 'a \<Rightarrow> 'a action" where
  "lift r w = (r, w)"

text \<open>\<^verbatim>\<open>try { body } catch (e) { handler }\<close>, and a function declared \<^verbatim>\<open>async\<close>: what its
  body throws rejects the promise, what it returns resolves it.\<close>

definition try_catch :: "'a action \<Rightarrow> (jsval \<Rightarrow> 'a action) \<Rightarrow> 'a action" where
  "try_catch body handler w =
     (case body w of (Inl e, w') \<Rightarrow> handler e w' | (Inr x, w') \<Rightarrow> (Inr x, w'))"

datatype promise = Resolved jsval | Rejected jsval | Pending

text \<open>
  Resolving a promise with a value: a thenable is adopted, the promise follows what its
  \<^verbatim>\<open>then\<close> does, and a value it fulfils with is resolved in the same way; any other value
  fulfils the promise. A reason of rejection is taken as it is.
\<close>

fun resolve_with :: "jsval \<Rightarrow> promise" where
  "resolve_with (JThenableFulfil v) = resolve_with v"
| "resolve_with (JThenableReject e) = Rejected e"
| "resolve_with JThenablePending = Pending"
| "resolve_with v = Resolved v"

definition async :: "jsval action \<Rightarrow> world \<Rightarrow> promise \<times> world" where
  "async body w =
     (case body w of (Inl e, w') \<Rightarrow> (Rejected e, w') | (Inr v, w') \<Rightarrow> (resolve_with v, w'))"

text \<open>\<^verbatim>\<open>await client.m(args)\<close>: the call is logged and the remote side decides its outcome.\<close>

definition await_call :: "remote \<Rightarrow> nat \<Rightarrow> request \<Rightarrow> jsval action" where
  "await_call remote c r w = (remote (trace w) (c, r), w\<lparr>trace := trace w @ [(c, r)]\<rparr>)"


section \<open>TwitterService\<close>

text \<open>
  \<^verbatim>\<open>static getInstance()\<close> (lines 15 to 20): the service object is allocated on the first
  call, by the constructor that sets \<^verbatim>\<open>this.client = null\<close>, and kept in the static field.
\<close>

definition getInstance :: "world \<Rightarrow> nat \<times> world" where
  "getInstance w =
     (case static_instance w of
        None \<Rightarrow>
          (let a = length (services w)
           in (a, w\<lparr>services := services w @ [\<lparr>client = None\<rparr>], static_instance := Some a\<rparr>))
      | Some a \<Rightarrow> (a, w))"

definition credentials_error :: jsval where
  "credentials_error =
     JError ''Error'' ''Twitter credentials are not properly configured in environment variables''"

text \<open>
  A method detached from its object runs with \<^verbatim>\<open>this\<close> undefined (class bodies are strict
  code), and reading a property of \<^verbatim>\<open>this\<close> throws the TypeError that names the property.
  That is the case of a reference that is no service object.
\<close>

definition this_error :: "string \<Rightarrow> jsval" where
  "this_error k =
     JError ''TypeError''
       (''Cannot read properties of undefined (reading '' @ CHR 0x27 # k @ CHR 0x27 # '')'')"

text \<open>
  \<^verbatim>\<open>getClient\<close> (lines 25 to 46). Its first read of \<^verbatim>\<open>this\<close> is \<^verbatim>\<open>this.client\<close>.
\<close>

definition getClient :: "nat \<Rightarrow> nat action" where
  "getClient this w =
     (if this < length (services w) then
        (case client (services w ! this) of
           None \<Rightarrow>
             (if \<not> truthy_string (TWITTER_API_KEY (process_env w))
                 \<or> \<not> truthy_string (TWITTER_API_KEY_SECRET (process_env w))
                 \<or> \<not> truthy_string (TWITTER_ACCESS_TOKEN (process_env w))
                 \<or> \<not> truthy_string (TWITTER_ACCESS_TOKEN_SECRET (process_env w))
              then (Inl credentials_error, w)
              else
                (let c = length (apis w);
                     tokens = \<lparr>appKey = the (TWITTER_API_KEY (process_env w)),
                               appSecret = the (TWITTER_API_KEY_SECRET (process_env w)),
                               accessToken = the (TWITTER_ACCESS_TOKEN (process_env w)),
                               accessSecret = the (TWITTER_ACCESS_TOKEN_SECRET (process_env w))\<rparr>
                 in (Inr c,
                     w\<lparr>apis := apis w @ [tokens],
                       services := (services w)[this := (services w ! this)\<lparr>client := Some c\<rparr>]\<rparr>)))
         | Some c \<Rightarrow> (Inr c, w))
      else (Inl (this_error ''client''), w))"

text \<open>
  The call \<^verbatim>\<open>this.getClient()\<close> in the body of an operation: the method is looked up on
  \<^verbatim>\<open>this\<close> first.
\<close>

definition this_getClient :: "nat \<Rightarrow> nat action" where
  "this_getClient this w =
     (if this < length (services w) then getClient this w
      else (Inl (this_error ''getClient''), w))"


text \<open>
  The media path of \<^verbatim>\<open>postTweet\<close>. The data-URI header is removed with
  \<^verbatim>\<open>replace(/^data:image\/\w+;base64,/, '')\<close>: the run of word characters is the longest
  one, since the character after it must be the semicolon. The MIME type is found by
  substring tests, in the order png, gif, webp.
\<close>

definition is_word_char :: "char \<Rightarrow> bool" where
  "is_word_char c =
     (let n = (of_char c :: nat)
      in (48 \<le> n \<and> n \<le> 57) \<or> (65 \<le> n \<and> n \<le> 90) \<or> n = 95 \<or> (97 \<le> n \<and> n \<le> 122))"

definition strip_data_uri :: "string \<Rightarrow> string" where
  "strip_data_uri s =
     (if prefix ''data:image/'' s then
        (let rest = drop 11 s;
             word = takeWhile is_word_char rest;
             after = dropWhile is_word_char rest
         in if word \<noteq> [] \<and> prefix '';base64,'' after then drop 8 after else s)
      else s)"

definition mimeType :: "string \<Rightarrow> EUploadMimeType" where
  "mimeType imageBase64 =
     (if str_includes imageBase64 ''data:image/png'' then Png
      else if str_includes imageBase64 ''data:image/gif'' then Gif
      else if str_includes imageBase64 ''data:image/webp'' then Webp
      else Jpeg)"

text \<open>
  The sixteen operations. Each is an async function whose whole body, \<^verbatim>\<open>getClient\<close>
  included, is inside \<^verbatim>\<open>try\<close>, with the handler \<^verbatim>\<open>catch (error) { return error; }\<close>.
  An optional parameter is an \<open>option\<close>, \<open>None\<close> for \<^verbatim>\<open>undefined\<close>. The
  \<^verbatim>\<open>console.error\<close> of \<^verbatim>\<open>getUserTweets\<close> writes to the console only and is left out.
\<close>

definition getUserTweets ::
  "remote \<Rightarrow> nat \<Rightarrow> string \<Rightarrow> string option \<Rightarrow> string list option \<Rightarrow> number option
     \<Rightarrow> world \<Rightarrow> promise \<times> world" where
  "getUserTweets remote this userId paginationToken exclude maxResults =
     async (try_catch
       (seq (this_getClient this) (\<lambda>client.
        seq (await_call remote client
               (UserTimeline userId
                  (case exclude of None \<Rightarrow> [''retweets'', ''replies''] | Some ex \<Rightarrow> ex)
                  (Integer 50) paginationToken)) (\<lambda>tweets.
        seq (lift (get_prop tweets ''data'')) (\<lambda>tweets_data.
        ret (case JSON_stringify
                    (JObj [(''result'', tweets_data),
                           (''message'', JStr ''Tweets fetched successfully'')]) of
               None \<Rightarrow> JUndefined | Some text \<Rightarrow> JStr text)))))
       (\<lambda>error. ret error))"

definition getTweet :: "remote \<Rightarrow> nat \<Rightarrow> string \<Rightarrow> world \<Rightarrow> promise \<times> world" where
  "getTweet remote this tweetId =
     async (try_catch
       (seq (this_getClient this) (\<lambda>client.
        seq (await_call remote client (SingleTweet tweetId)) (\<lambda>result.
        lift (get_prop result ''data''))))
       (\<lambda>error. ret error))"

definition getUserMentionTimeline ::
  "remote \<Rightarrow> nat \<Rightarrow> string \<Rightarrow> string option \<Rightarrow> number option \<Rightarrow> world \<Rightarrow> promise \<times> world" where
  "getUserMentionTimeline remote this userId paginationToken maxResults =
     async (try_catch
       (seq (this_getClient this) (\<lambda>client.
        seq (await_call remote client
               (UserMentionTimeline userId
                  (case maxResults of
                     None \<Rightarrow> Integer 10
                   | Some n \<Rightarrow> if truthy_number n then n else Integer 10)
                  paginationToken)) (\<lambda>mentions.
        lift (get_prop mentions ''data''))))
       (\<lambda>error. ret error))"

definition quoteAndComment :: "remote \<Rightarrow> nat \<Rightarrow> string \<Rightarrow> string \<Rightarrow> world \<Rightarrow> promise \<times> world" where
  "quoteAndComment remote this tweetId replyText =
     async (try_catch
       (seq (this_getClient this) (\<lambda>client.
        seq (await_call remote client (Quote replyText tweetId)) (\<lambda>quote.
        lift (get_prop quote ''data''))))
       (\<lambda>error. ret error))"

definition replyToTweet :: "remote \<Rightarrow> nat \<Rightarrow> string \<Rightarrow> string \<Rightarrow> world \<Rightarrow> promise \<times> world" where
  "replyToTweet remote this tweetId replyText =
     async (try_catch
       (seq (this_getClient this) (\<lambda>client.
        seq (await_call remote client (Reply replyText tweetId)) (\<lambda>reply.
        lift (get_prop reply ''data''))))
       (\<lambda>error. ret error))"

definition postTweet :: "remote \<Rightarrow> nat \<Rightarrow> string \<Rightarrow> string option \<Rightarrow> world \<Rightarrow> promise \<times> world" where
  "postTweet remote this text imageBase64 =
     async (try_catch
       (seq (this_getClient this) (\<lambda>client.
        if truthy_string imageBase64 then
          seq (await_call remote client
                 (UploadMedia (Buffer_from_base64 (strip_data_uri (the imageBase64)))
                    (mimeType (the imageBase64)) ''tweet_image'')) (\<lambda>mediaId.
          seq (await_call remote client (TweetMedia text [mediaId])) (\<lambda>tweet.
          lift (get_prop tweet ''data'')))
        else
          seq (await_call remote client (Tweet text)) (\<lambda>tweet.
          lift (get_prop tweet ''data''))))
       (\<lambda>error. ret error))"

definition likeTweet :: "remote \<Rightarrow> nat \<Rightarrow> string \<Rightarrow> world \<Rightarrow> promise \<times> world" where
  "likeTweet remote this tweetId =
     async (try_catch
       (seq (this_getClient this) (\<lambda>client.
        seq (await_call remote client Me) (\<lambda>me.
        seq (lift (get_prop me ''data'')) (\<lambda>me_data.
        seq (lift (get_prop me_data ''id'')) (\<lambda>me_data_id.
        seq (await_call remote client (Like me_data_id tweetId)) (\<lambda>result.
        seq (lift (get_prop result ''data'')) (\<lambda>result_data.
        seq (lift (get_prop result_data ''liked'')) (\<lambda>liked.
        ret (JObj [(''liked'', liked)])))))))))
       (\<lambda>error. ret error))"

definition followUser :: "remote \<Rightarrow> nat \<Rightarrow> string \<Rightarrow> world \<Rightarrow> promise \<times> world" where
  "followUser remote this targetUserId =
     async (try_catch
       (seq (this_getClient this) (\<lambda>client.
        seq (await_call remote client Me) (\<lambda>me.
        seq (lift (get_prop me ''data'')) (\<lambda>me_data.
        seq (lift (get_prop me_data ''id'')) (\<lambda>me_data_id.
        seq (await_call remote client (Follow me_data_id targetUserId)) (\<lambda>result.
        lift (get_prop result ''data'')))))))
       (\<lambda>error. ret error))"

definition unfollowUser :: "remote \<Rightarrow> nat \<Rightarrow> string \<Rightarrow> world \<Rightarrow> promise \<times> world" where
  "unfollowUser remote this targetUserId =
     async (try_catch
       (seq (this_getClient this) (\<lambda>client.
        seq (await_call remote client Me) (\<lambda>me.
        seq (lift (get_prop me ''data'')) (\<lambda>me_data.
        seq (lift (get_prop me_data ''id'')) (\<lambda>me_data_id.
        seq (await_call remote client (Unfollow me_data_id targetUserId)) (\<lambda>result.
        lift (get_prop result ''data'')))))))
       (\<lambda>error. ret error))"

definition getUserByUsername :: "remote \<Rightarrow> nat \<Rightarrow> string \<Rightarrow> world \<Rightarrow> promise \<times> world" where
  "getUserByUsername remote this username =
     async (try_catch
       (seq (this_getClient this) (\<lambda>client.
        seq (await_call remote client (UserByUsername username)) (\<lambda>result.
        lift (get_prop result ''data''))))
       (\<lambda>error. ret error))"

definition searchTweets :: "remote \<Rightarrow> nat \<Rightarrow> string \<Rightarrow> number option \<Rightarrow> world \<Rightarrow> promise \<times> world" where
  "searchTweets remote this query maxResults_arg =
     (let maxResults = (case maxResults_arg of None \<Rightarrow> Integer 10 | Some n \<Rightarrow> n) in
      async (try_catch
        (seq (this_getClient this) (\<lambda>client.
         seq (await_call remote client (Search query maxResults)) (\<lambda>result.
         seq (lift (get_prop result ''data'')) (\<lambda>result_data.
         lift (get_prop result_data ''data'')))))
        (\<lambda>error. ret error)))"

definition getTrendingTopics :: "remote \<Rightarrow> nat \<Rightarrow> number option \<Rightarrow> world \<Rightarrow> promise \<times> world" where
  "getTrendingTopics remote this woeid_arg =
     (let woeid = (case woeid_arg of None \<Rightarrow> Integer 1 | Some n \<Rightarrow> n) in
      async (try_catch
        (seq (this_getClient this) (\<lambda>client.
         seq (await_call remote client TrendsAvailable) (\<lambda>result.
         ret result)))
        (\<lambda>error. ret error)))"

definition createList ::
  "remote \<Rightarrow> nat \<Rightarrow> string \<Rightarrow> string option \<Rightarrow> bool option \<Rightarrow> world \<Rightarrow> promise \<times> world" where
  "createList remote this name description isPrivate_arg =
     (let isPrivate = (case isPrivate_arg of None \<Rightarrow> False | Some b \<Rightarrow> b) in
      async (try_catch
        (seq (this_getClient this) (\<lambda>client.
         seq (await_call remote client (CreateListReq name description isPrivate)) (\<lambda>result.
         lift (get_prop result ''data''))))
        (\<lambda>error. ret error)))"

definition addListMember :: "remote \<Rightarrow> nat \<Rightarrow> string \<Rightarrow> string \<Rightarrow> world \<Rightarrow> promise \<times> world" where
  "addListMember remote this listId userId =
     async (try_catch
       (seq (this_getClient this) (\<lambda>client.
        seq (await_call remote client (AddListMemberReq listId userId)) (\<lambda>result.
        lift (get_prop result ''data''))))
       (\<lambda>error. ret error))"

definition removeListMember :: "remote \<Rightarrow> nat \<Rightarrow> string \<Rightarrow> string \<Rightarrow> world \<Rightarrow> promise \<times> world" where
  "removeListMember remote this listId userId =
     async (try_catch
       (seq (this_getClient this) (\<lambda>client.
        seq (await_call remote client (RemoveListMemberReq listId userId)) (\<lambda>result.
        lift (get_prop result ''data''))))
       (\<lambda>error. ret error))"

definition getOwnedLists :: "remote \<Rightarrow> nat \<Rightarrow> world \<Rightarrow> promise \<times> world" where
  "getOwnedLists remote this =
     async (try_catch
       (seq (this_getClient this) (\<lambda>client.
        seq (await_call remote client Me) (\<lambda>me.
        seq (lift (get_prop me ''data'')) (\<lambda>me_data.
        seq (lift (get_prop me_data ''id'')) (\<lambda>me_data_id.
        seq (await_call remote client (ListsOwned me_data_id)) (\<lambda>result.
        seq (lift (get_prop result ''data'')) (\<lambda>result_data.
        lift (get_prop result_data ''data''))))))))
       (\<lambda>error. ret error))"


section \<open>Calling the facade\<close>

text \<open>An invocation of one of the sixteen operations, with its arguments.\<close>

datatype operation =
    GetUserTweets string "string option" "string list option" "number option"
  | GetTweet string
  | GetUserMentionTimeline string "string option" "number option"
  | QuoteAndComment string string
  | ReplyToTweet string string
  | PostTweet string "string option"
  | LikeTweet string
  | FollowUser string
  | UnfollowUser string
  | GetUserByUsername string
  | SearchTweets string "number option"
  | GetTrendingTopics "number option"
  | CreateList string "string option" "bool option"
  | AddListMember string string
  | RemoveListMember string string
  | GetOwnedLists

fun invoke :: "remote \<Rightarrow> nat \<Rightarrow> operation \<Rightarrow> world \<Rightarrow> promise \<times> world" where
  "invoke remote this (GetUserTweets u p e m) = getUserTweets remote this u p e m"
| "invoke remote this (GetTweet t) = getTweet remote this t"
| "invoke remote this (GetUserMentionTimeline u p m) = getUserMentionTimeline remote this u p m"
| "invoke remote this (QuoteAndComment t r) = quoteAndComment remote this t r"
| "invoke remote this (ReplyToTweet t r) = replyToTweet remote this t r"
| "invoke remote this (PostTweet t i) = postTweet remote this t i"
| "invoke remote this (LikeTweet t) = likeTweet remote this t"
| "invoke remote this (FollowUser u) = followUser remote this u"
| "invoke remote this (UnfollowUser u) = unfollowUser remote this u"
| "invoke remote this (GetUserByUsername u) = getUserByUsername remote this u"
| "invoke remote this (SearchTweets q m) = searchTweets remote this q m"
| "invoke remote this (GetTrendingTopics x) = getTrendingTopics remote this x"
| "invoke remote this (CreateList n d p) = createList remote this n d p"
| "invoke remote this (AddListMember l u) = addListMember remote this l u"
| "invoke remote this (RemoveListMember l u) = removeListMember remote this l u"
| "invoke remote this GetOwnedLists = getOwnedLists remote this"

text \<open>
  A caller's session: each step is \<^verbatim>\<open>TwitterService.getInstance().op(args)\<close>, awaited
  before the next one. The outcomes are collected with the service object each step ran on.
\<close>

fun run :: "remote \<Rightarrow> operation list \<Rightarrow> world \<Rightarrow> (nat \<times> promise) list \<times> world" where
  "run remote [] w = ([], w)"
| "run remote (op # ops) w =
     (case getInstance w of (this, w1) \<Rightarrow>
      case invoke remote this op w1 of (p, w2) \<Rightarrow>
      case run remote ops w2 of (ps, w3) \<Rightarrow> ((this, p) # ps, w3))"

text \<open>The state of a process that has not touched the service yet.\<close>

definition initial :: "env \<Rightarrow> world" where
  "initial e = \<lparr>process_env = e, static_instance = None, services = [], apis = [], trace = []\<rparr>"

text \<open>The calls an invocation adds to the log.\<close>

definition calls_made :: "remote \<Rightarrow> nat \<Rightarrow> operation \<Rightarrow> world \<Rightarrow> (nat \<times> request) list" where
  "calls_made remote this op w = drop (length (trace w)) (trace (snd (invoke remote this op w)))"


section \<open>Notions used to state the properties\<close>

text \<open>All four credential variables are set and non-empty.\<close>

definition credentials_configured :: "env \<Rightarrow> bool" where
  "credentials_configured e =
     (truthy_string (TWITTER_API_KEY e) \<and> truthy_string (TWITTER_API_KEY_SECRET e)
      \<and> truthy_string (TWITTER_ACCESS_TOKEN e) \<and> truthy_string (TWITTER_ACCESS_TOKEN_SECRET e))"

text \<open>
  The operations whose body awaits two client calls: the four that first ask for the
  authenticated user, and \<^verbatim>\<open>postTweet\<close> with a truthy image.
\<close>

fun two_step :: "operation \<Rightarrow> bool" where
  "two_step (LikeTweet t) = True"
| "two_step (FollowUser u) = True"
| "two_step (UnfollowUser u) = True"
| "two_step GetOwnedLists = True"
| "two_step (PostTweet t img) = truthy_string img"
| "two_step op = False"

text \<open>
  The table of client calls. \<open>first_request\<close> is the method and the arguments of the
  first call of an operation. For the two-step operations, \<open>passed_on\<close> is what the
  response to the first call hands to the second one, if anything: \<^verbatim>\<open>me.data.id\<close> when
  \<^verbatim>\<open>me()\<close> was fulfilled and the identifier can be read, the media identifier when the
  upload was fulfilled; \<open>second_request\<close> is the second call made with it.
\<close>

fun first_request :: "operation \<Rightarrow> request" where
  "first_request (GetUserTweets u p ex m) =
     UserTimeline u (case ex of None \<Rightarrow> [''retweets'', ''replies''] | Some x \<Rightarrow> x) (Integer 50) p"
| "first_request (GetTweet t) = SingleTweet t"
| "first_request (GetUserMentionTimeline u p m) =
     UserMentionTimeline u
       (case m of None \<Rightarrow> Integer 10 | Some n \<Rightarrow> if truthy_number n then n else Integer 10) p"
| "first_request (QuoteAndComment t r) = Quote r t"
| "first_request (ReplyToTweet t r) = Reply r t"
| "first_request (PostTweet t img) =
     (if truthy_string img
      then UploadMedia (Buffer_from_base64 (strip_data_uri (the img))) (mimeType (the img))
             ''tweet_image''
      else Tweet t)"
| "first_request (LikeTweet t) = Me"
| "first_request (FollowUser u) = Me"
| "first_request (UnfollowUser u) = Me"
| "first_request (GetUserByUsername u) = UserByUsername u"
| "first_request (SearchTweets q m) = Search q (case m of None \<Rightarrow> Integer 10 | Some n \<Rightarrow> n)"
| "first_request (GetTrendingTopics x) = TrendsAvailable"
| "first_request (CreateList n d p) = CreateListReq n d (case p of None \<Rightarrow> False | Some b \<Rightarrow> b)"
| "first_request (AddListMember l u) = AddListMemberReq l u"
| "first_request (RemoveListMember l u) = RemoveListMemberReq l u"
| "first_request GetOwnedLists = Me"

fun passed_on :: "operation \<Rightarrow> jsval + jsval \<Rightarrow> jsval option" where
  "passed_on op (Inl e) = None"
| "passed_on (PostTweet t img) (Inr mediaId) = Some mediaId"
| "passed_on op (Inr me) =
     (case get_prop me ''data'' of
        Inl e \<Rightarrow> None
      | Inr d \<Rightarrow> (case get_prop d ''id'' of Inl e \<Rightarrow> None | Inr i \<Rightarrow> Some i))"

fun second_request :: "operation \<Rightarrow> jsval \<Rightarrow> request" where
  "second_request (LikeTweet t) i = Like i t"
| "second_request (FollowUser u) i = Follow i u"
| "second_request (UnfollowUser u) i = Unfollow i u"
| "second_request GetOwnedLists i = ListsOwned i"
| "second_request (PostTweet t img) mediaId = TweetMedia t [mediaId]"
| "second_request op x = first_request op"

text \<open>The values that a promise does not fulfil with but adopts.\<close>

fun is_thenable :: "jsval \<Rightarrow> bool" where
  "is_thenable (JThenableFulfil v) = True"
| "is_thenable (JThenableReject e) = True"
| "is_thenable JThenablePending = True"
| "is_thenable v = False"

text \<open>
  Two readings of the MIME table. \<open>mime_by_prefix\<close> follows the words of the
  specification (the string is prefixed with the token); \<open>mime_by_substring\<close> asks whether
  the token occurs anywhere, in the order of the tests in the code.
\<close>

definition mime_by_prefix :: "string \<Rightarrow> EUploadMimeType" where
  "mime_by_prefix s =
     (if prefix ''data:image/png'' s then Png
      else if prefix ''data:image/gif'' s then Gif
      else if prefix ''data:image/webp'' s then Webp
      else Jpeg)"

definition mime_by_substring :: "string \<Rightarrow> EUploadMimeType" where
  "mime_by_substring s =
     (if sublist ''data:image/png'' s then Png
      else if sublist ''data:image/gif'' s then Gif
      else if sublist ''data:image/webp'' s then Webp
      else Jpeg)"

text \<open>
  Two properties of a statement sequence that compose along \<open>seq\<close>. \<open>surfaces\<close>: the
  sequence only appends to the log, and when one of the calls it makes is rejected with
  \<open>e\<close>, the sequence throws that very \<open>e\<close>. \<open>frames c\<close>: the sequence leaves everything
  but the log alone, and every call it makes is made on the client object \<open>c\<close>.
\<close>

definition surfaces :: "remote \<Rightarrow> 'a action \<Rightarrow> bool" where
  "surfaces remote m \<longleftrightarrow>
     (\<forall>w r w'. m w = (r, w') \<longrightarrow>
        (\<exists>new. trace w' = trace w @ new \<and>
           (\<forall>i e. i < length new \<longrightarrow> remote (trace w @ take i new) (new ! i) = Inl e \<longrightarrow> r = Inl e)))"

definition frames :: "nat \<Rightarrow> 'a action \<Rightarrow> bool" where
  "frames c m \<longleftrightarrow>
     (\<forall>w r w'. m w = (r, w') \<longrightarrow>
        process_env w' = process_env w \<and> static_instance w' = static_instance w
        \<and> services w' = services w \<and> apis w' = apis w
        \<and> (\<exists>new. trace w' = trace w @ new \<and> (\<forall>x\<in>set new. fst x = c)))"

text \<open>The state once the singleton and its client exist: one service, one client.\<close>

definition settled :: "world \<Rightarrow> bool" where
  "settled w \<longleftrightarrow>
     static_instance w = Some 0 \<and> services w = [\<lparr>client = Some 0\<rparr>] \<and> length (apis w) = 1
     \<and> (\<forall>x\<in>set (trace w). fst x = 0)"


section \<open>Concrete environments and remote sides\<close>

definition example_env :: env where
  "example_env =
     \<lparr>TWITTER_API_KEY = Some ''key'', TWITTER_API_KEY_SECRET = Some ''key-secret'',
      TWITTER_ACCESS_TOKEN = Some ''token'', TWITTER_ACCESS_TOKEN_SECRET = Some ''token-secret''\<rparr>"

definition env_without_key :: env where
  "env_without_key = example_env\<lparr>TWITTER_API_KEY := None\<rparr>"

text \<open>The state right after the first \<^verbatim>\<open>TwitterService.getInstance()\<close>.\<close>

definition first_use :: "env \<Rightarrow> world" where
  "first_use e = snd (getInstance (initial e))"

text \<open>A state in which the client already exists.\<close>

definition warm :: world where
  "warm =
     \<lparr>process_env = example_env, static_instance = Some 0, services = [\<lparr>client = Some 0\<rparr>],
      apis = [\<lparr>appKey = ''key'', appSecret = ''key-secret'', accessToken = ''token'',
               accessSecret = ''token-secret''\<rparr>],
      trace = []\<rparr>"

text \<open>A remote side that resolves every call with the same response.\<close>

definition ok_remote :: remote where
  "ok_remote tr call =
     Inr (JObj [(''data'', JObj [(''id'', JStr ''7''), (''liked'', JBool True), (''data'', JArr [])])])"

text \<open>A remote side that resolves every call with a timeline of one post.\<close>

definition posts_remote :: remote where
  "posts_remote tr call =
     Inr (JObj [(''data'', JArr [JObj [(''id'', JStr ''1''), (''text'', JStr ''hello'')]])])"

text \<open>A remote side that rejects every call, with a thenable that in turn rejects.\<close>

definition thenable_remote :: remote where
  "thenable_remote tr call = Inl (JThenableReject (JStr ''later''))"

text \<open>A remote side that answers \<^verbatim>\<open>me()\<close> and rejects every other call.\<close>

definition only_me_remote :: remote where
  "only_me_remote tr call =
     (case snd call of
        Me \<Rightarrow> Inr (JObj [(''data'', JObj [(''id'', JStr ''7'')])])
      | _ \<Rightarrow> Inl (JError ''ApiRequestError'' ''Request failed''))"


section \<open>The shape of every operation\<close>

lemmas op_defs = getUserTweets_def getTweet_def getUserMentionTimeline_def quoteAndComment_def
  replyToTweet_def postTweet_def likeTweet_def followUser_def unfollowUser_def
  getUserByUsername_def searchTweets_def getTrendingTopics_def createList_def addListMember_def
  removeListMember_def getOwnedLists_def

text \<open>
  All sixteen bodies are \<^verbatim>\<open>try { const client = this.getClient(); ... } catch (error)
  { return error; }\<close>: whatever is thrown inside, by \<^verbatim>\<open>getClient\<close> or later, becomes the
  value the promise resolves with.
\<close>

lemma facade_shape:
  "async (try_catch (seq (this_getClient this) body) ret) w =
     (case this_getClient this w of
        (Inl e, w1) \<Rightarrow> (resolve_with e, w1)
      | (Inr c, w1) \<Rightarrow>
          (case body c w1 of
             (Inl e, w2) \<Rightarrow> (resolve_with e, w2)
           | (Inr v, w2) \<Rightarrow> (resolve_with v, w2)))"
  by (simp add: async_def try_catch_def seq_def ret_def split: prod.splits sum.splits)

lemma getClient_ok_valid: "getClient this w = (Inr c, w1) \<Longrightarrow> this < length (services w)"
  by (rule ccontr) (simp add: getClient_def)

lemma this_getClient_ok:
  "getClient this w = (Inr c, w1) \<Longrightarrow> this_getClient this w = (Inr c, w1)"
  using getClient_ok_valid[of this w c w1] by (simp add: this_getClient_def)

lemma facade_getClient_ok:
  "getClient this w = (Inr c, w1) \<Longrightarrow>
   async (try_catch (seq (this_getClient this) body) ret) w =
     (case body c w1 of
        (Inl e, w2) \<Rightarrow> (resolve_with e, w2)
      | (Inr v, w2) \<Rightarrow> (resolve_with v, w2))"
  by (simp add: facade_shape this_getClient_ok)

lemma seq_await_call:
  "seq (await_call remote c r) f w =
     (case remote (trace w) (c, r) of
        Inl e \<Rightarrow> (Inl e, w\<lparr>trace := trace w @ [(c, r)]\<rparr>)
      | Inr v \<Rightarrow> f v (w\<lparr>trace := trace w @ [(c, r)]\<rparr>))"
  by (simp add: seq_def await_call_def split: sum.splits)

lemma seq_lift:
  "seq (lift x) f w = (case x of Inl e \<Rightarrow> (Inl e, w) | Inr v \<Rightarrow> f v w)"
  by (simp add: seq_def lift_def split: sum.splits)

lemmas run_simps = facade_getClient_ok seq_await_call seq_lift lift_def ret_def calls_made_def

lemmas world_simps = first_use_def getInstance_def initial_def example_env_def env_without_key_def
  this_getClient_def getClient_def truthy_string_def Let_def

lemmas eval_simps = calls_made_def facade_shape seq_await_call seq_lift lift_def ret_def


section \<open>getClient\<close>

lemma getClient_trace: "getClient this w = (r, w1) \<Longrightarrow> trace w1 = trace w"
  by (auto simp add: getClient_def Let_def split: if_splits option.splits)

lemma getClient_fst_trace:
  "fst (getClient this w) = Inr c \<Longrightarrow> \<exists>w1. getClient this w = (Inr c, w1) \<and> trace w1 = trace w"
  using getClient_trace by (cases "getClient this w") auto

lemma this_getClient_trace: "this_getClient this w = (r, w1) \<Longrightarrow> trace w1 = trace w"
  using getClient_trace by (auto simp add: this_getClient_def split: if_splits)

lemma this_getClient_valid:
  "this < length (services w) \<Longrightarrow> this_getClient this w = getClient this w"
  by (simp add: this_getClient_def)

lemma getClient_ready:
  "this < length (services w) \<Longrightarrow> client (services w ! this) = Some c \<Longrightarrow>
   getClient this w = (Inr c, w)"
  by (simp add: getClient_def)

lemma getClient_first:
  "this < length (services w) \<Longrightarrow> client (services w ! this) = None \<Longrightarrow>
   credentials_configured (process_env w) \<Longrightarrow>
   \<exists>tokens. getClient this w =
     (Inr (length (apis w)),
      w\<lparr>apis := apis w @ [tokens],
        services := (services w)[this := (services w ! this)\<lparr>client := Some (length (apis w))\<rparr>]\<rparr>)"
  by (simp add: getClient_def credentials_configured_def Let_def) blast

lemma getClient_missing:
  assumes "this < length (services w)" "client (services w ! this) = None"
    "\<not> credentials_configured (process_env w)"
  shows "getClient this w = (Inl credentials_error, w)"
  using assms by (auto simp add: getClient_def credentials_configured_def)

lemma getClient_first_use: "fst (getClient 0 (first_use example_env)) = Inr 0"
  by (simp add: world_simps)


section \<open>Result counts\<close>

text \<open>
  C8. \<^verbatim>\<open>searchTweets\<close> called without a result count asks the search for 10 results, and
  called with a count it forwards that count: the one call it makes on the client is
  \<^verbatim>\<open>search(query, {max_results: 10})\<close>, respectively \<^verbatim>\<open>{max_results: n}\<close>.
\<close>

theorem searchTweets_max_results:
  assumes "fst (getClient this w) = Inr c"
  shows "calls_made remote this (SearchTweets q None) w = [(c, Search q (Integer 10))]
       \<and> calls_made remote this (SearchTweets q (Some n)) w = [(c, Search q n)]"
proof -
  from getClient_fst_trace[OF assms] obtain w1 where
    "getClient this w = (Inr c, w1)" "trace w1 = trace w" by blast
  then show ?thesis
    by (simp add: searchTweets_def run_simps split: sum.splits)
qed

text \<open>The search is run on first use, without a count and with the count 25.\<close>

theorem searchTweets_max_results_witness:
  "fst (getClient 0 (first_use example_env)) = Inr 0
   \<and> calls_made ok_remote 0 (SearchTweets ''cats'' None) (first_use example_env)
       = [(0, Search ''cats'' (Integer 10))]
   \<and> calls_made ok_remote 0 (SearchTweets ''cats'' (Some (Integer 25))) (first_use example_env)
       = [(0, Search ''cats'' (Integer 25))]"
  using getClient_first_use
    searchTweets_max_results[OF getClient_first_use, of ok_remote "''cats''" "Integer 25"]
  by simp

text \<open>
  C10 as stated fails: \<^verbatim>\<open>NaN\<close> is a supplied count that is not zero, and it is falsy, so
  \<^verbatim>\<open>maxResults || 10\<close> asks for 10 results and not for the supplied value.
\<close>

theorem mention_timeline_NaN_gets_ten:
  "calls_made ok_remote 0 (GetUserMentionTimeline ''42'' None (Some NaN)) (first_use example_env)
     = [(0, UserMentionTimeline ''42'' (Integer 10) None)]"
  by (simp add: getUserMentionTimeline_def eval_simps world_simps ok_remote_def)

text \<open>
  C10, amended. \<^verbatim>\<open>getUserMentionTimeline\<close> asks for \<^verbatim>\<open>maxResults || 10\<close> results: the
  supplied count when it is truthy, that is a number other than \<^verbatim>\<open>0\<close>, \<^verbatim>\<open>-0\<close> and
  \<^verbatim>\<open>NaN\<close>, and 10 when the count is missing or is one of these three. A caller who passes 0
  gets a request for 10 results, not 0.
\<close>

theorem mention_timeline_max_results:
  assumes "fst (getClient this w) = Inr c"
  shows "calls_made remote this (GetUserMentionTimeline u p None) w
           = [(c, UserMentionTimeline u (Integer 10) p)]
       \<and> calls_made remote this (GetUserMentionTimeline u p (Some (Integer 0))) w
           = [(c, UserMentionTimeline u (Integer 10) p)]
       \<and> calls_made remote this (GetUserMentionTimeline u p (Some NegZero)) w
           = [(c, UserMentionTimeline u (Integer 10) p)]
       \<and> calls_made remote this (GetUserMentionTimeline u p (Some NaN)) w
           = [(c, UserMentionTimeline u (Integer 10) p)]
       \<and> (n \<noteq> Integer 0 \<and> n \<noteq> NegZero \<and> n \<noteq> NaN \<longrightarrow>
            calls_made remote this (GetUserMentionTimeline u p (Some n)) w
              = [(c, UserMentionTimeline u n p)])"
proof -
  from getClient_fst_trace[OF assms] obtain w1 where
    g: "getClient this w = (Inr c, w1)" "trace w1 = trace w" by blast
  have calls: "calls_made remote this (GetUserMentionTimeline u p m) w =
      [(c, UserMentionTimeline u
             (case m of None \<Rightarrow> Integer 10 | Some k \<Rightarrow> if truthy_number k then k else Integer 10) p)]"
    for m
    using g by (simp add: getUserMentionTimeline_def run_simps split: sum.splits)
  have "truthy_number n" if "n \<noteq> Integer 0 \<and> n \<noteq> NegZero \<and> n \<noteq> NaN"
    using that by (cases n) auto
  then show ?thesis by (simp add: calls)
qed

text \<open>The mention timeline is asked for without a count, with 0 and with 5.\<close>

theorem mention_timeline_max_results_witness:
  "fst (getClient 0 (first_use example_env)) = Inr 0
   \<and> Integer 5 \<noteq> Integer 0 \<and> Integer 5 \<noteq> NegZero \<and> Integer 5 \<noteq> NaN
   \<and> calls_made ok_remote 0 (GetUserMentionTimeline ''42'' None None) (first_use example_env)
       = [(0, UserMentionTimeline ''42'' (Integer 10) None)]
   \<and> calls_made ok_remote 0 (GetUserMentionTimeline ''42'' None (Some (Integer 0)))
        (first_use example_env)
       = [(0, UserMentionTimeline ''42'' (Integer 10) None)]
   \<and> calls_made ok_remote 0 (GetUserMentionTimeline ''42'' None (Some (Integer 5)))
        (first_use example_env)
       = [(0, UserMentionTimeline ''42'' (Integer 5) None)]"
  using getClient_first_use
    mention_timeline_max_results[OF getClient_first_use, of ok_remote "''42''" None "Integer 5"]
  by simp


section \<open>Trending topics\<close>

text \<open>
  C5. \<^verbatim>\<open>getTrendingTopics\<close> does not use its \<^verbatim>\<open>woeid\<close> argument: for any two arguments
  the outcome and the resulting state are the same, and the one call it makes on the client
  is \<^verbatim>\<open>v1.trendsAvailable()\<close>, which carries no region.
\<close>

theorem trending_topics_ignore_woeid:
  "getTrendingTopics remote this x w = getTrendingTopics remote this y w
   \<and> (fst (getClient this w) = Inr c \<longrightarrow>
        calls_made remote this (GetTrendingTopics x) w = [(c, TrendsAvailable)])"
proof (intro conjI impI)
  show "getTrendingTopics remote this x w = getTrendingTopics remote this y w"
    by (simp add: getTrendingTopics_def)
next
  assume "fst (getClient this w) = Inr c"
  from getClient_fst_trace[OF this] obtain w1 where
    "getClient this w = (Inr c, w1)" "trace w1 = trace w" by blast
  then show "calls_made remote this (GetTrendingTopics x) w = [(c, TrendsAvailable)]"
    by (simp add: getTrendingTopics_def run_simps split: sum.splits)
qed

text \<open>Trends are asked for a region and for none.\<close>

theorem trending_topics_ignore_woeid_witness:
  "fst (getClient 0 (first_use example_env)) = Inr 0
   \<and> getTrendingTopics ok_remote 0 (Some (Integer 23424977)) (first_use example_env)
       = getTrendingTopics ok_remote 0 None (first_use example_env)
   \<and> calls_made ok_remote 0 (GetTrendingTopics (Some (Integer 23424977))) (first_use example_env)
       = [(0, TrendsAvailable)]"
  using getClient_first_use
    trending_topics_ignore_woeid[of ok_remote 0 "Some (Integer 23424977)" "first_use example_env" None 0]
  by simp


section \<open>Missing credentials\<close>

text \<open>
  C1 as stated fails: with a credential missing, \<^verbatim>\<open>getTweet\<close> does not reject. The error
  thrown by \<^verbatim>\<open>getClient\<close> is thrown inside the \<^verbatim>\<open>try\<close> block, so the handler returns it
  and the promise resolves with it.
\<close>

lemma resolve_with_credentials_error: "resolve_with credentials_error = Resolved credentials_error"
  by (simp add: credentials_error_def)

theorem missing_credentials_do_not_reject:
  "fst (invoke ok_remote 0 (GetTweet ''20'') (first_use env_without_key))
     = Resolved credentials_error"
  by (simp add: getTweet_def facade_shape world_simps resolve_with_credentials_error)

text \<open>
  C1, amended. When a credential is absent or empty and the client has not been
  constructed, \<^verbatim>\<open>getClient\<close> throws the configuration error, and every operation resolves
  with that error as its result, leaves the state as it was and makes no call on a client.
\<close>

theorem missing_credentials_error_is_returned:
  assumes "this < length (services w)" and "client (services w ! this) = None"
    and "\<not> credentials_configured (process_env w)"
  shows "getClient this w = (Inl credentials_error, w)
       \<and> invoke remote this op w = (Resolved credentials_error, w)
       \<and> calls_made remote this op w = []"
proof -
  note g = getClient_missing[OF assms]
  with this_getClient_valid[OF assms(1)]
  have t: "this_getClient this w = (Inl credentials_error, w)" by simp
  have i: "invoke remote this op w = (Resolved credentials_error, w)"
    by (cases op)
       (simp_all add: op_defs facade_shape t Let_def resolve_with_credentials_error)
  with g show ?thesis by (simp add: calls_made_def)
qed

text \<open>The API key is unset on first use, and the post is looked up.\<close>

theorem missing_credentials_error_is_returned_witness:
  "0 < length (services (first_use env_without_key))
   \<and> client (services (first_use env_without_key) ! 0) = None
   \<and> \<not> credentials_configured (process_env (first_use env_without_key))
   \<and> invoke ok_remote 0 (GetTweet ''20'') (first_use env_without_key)
       = (Resolved credentials_error, first_use env_without_key)
   \<and> calls_made ok_remote 0 (GetTweet ''20'') (first_use env_without_key) = []"
proof -
  have h1: "0 < length (services (first_use env_without_key))"
    by (simp add: world_simps)
  have h2: "client (services (first_use env_without_key) ! 0) = None"
    by (simp add: world_simps)
  have h3: "\<not> credentials_configured (process_env (first_use env_without_key))"
    by (simp add: world_simps credentials_configured_def)
  from h1 h2 h3 missing_credentials_error_is_returned[OF h1 h2 h3, of ok_remote "GetTweet ''20''"]
  show ?thesis by simp
qed


section \<open>Errors of the remote side\<close>

lemma surfaces_ret: "surfaces remote (ret x)"
  by (simp add: surfaces_def ret_def)

lemma surfaces_lift: "surfaces remote (lift x)"
  by (simp add: surfaces_def lift_def)

lemma surfaces_this_getClient: "surfaces remote (this_getClient this)"
  unfolding surfaces_def using this_getClient_trace by fastforce

lemma surfaces_await_call: "surfaces remote (await_call remote c r)"
  by (auto simp add: surfaces_def await_call_def)

lemma surfaces_if: "surfaces remote a \<Longrightarrow> surfaces remote b \<Longrightarrow> surfaces remote (if t then a else b)"
  by simp

lemma surfaces_seq:
  assumes m: "surfaces remote m" and f: "\<And>x. surfaces remote (f x)"
  shows "surfaces remote (seq m f)"
  unfolding surfaces_def
proof (intro allI impI)
  fix w r w'
  assume run: "seq m f w = (r, w')"
  obtain r1 w1 where m1: "m w = (r1, w1)" by (cases "m w")
  from m m1 obtain new1 where t1: "trace w1 = trace w @ new1"
    and e1: "\<And>i e. i < length new1 \<Longrightarrow> remote (trace w @ take i new1) (new1 ! i) = Inl e \<Longrightarrow> r1 = Inl e"
    unfolding surfaces_def by blast
  show "\<exists>new. trace w' = trace w @ new \<and>
           (\<forall>i e. i < length new \<longrightarrow> remote (trace w @ take i new) (new ! i) = Inl e \<longrightarrow> r = Inl e)"
  proof (cases r1)
    case (Inl e0)
    with run m1 have "r = Inl e0" "w' = w1" by (simp_all add: seq_def)
    with t1 e1 Inl show ?thesis by auto
  next
    case (Inr x)
    with run m1 have f1: "f x w1 = (r, w')" by (simp add: seq_def)
    from f[of x] f1 obtain new2 where t2: "trace w' = trace w1 @ new2"
      and e2: "\<And>i e. i < length new2 \<Longrightarrow> remote (trace w1 @ take i new2) (new2 ! i) = Inl e \<Longrightarrow> r = Inl e"
      unfolding surfaces_def by blast
    have "r = Inl e" if i: "i < length (new1 @ new2)"
      and th: "remote (trace w @ take i (new1 @ new2)) ((new1 @ new2) ! i) = Inl e" for i e
    proof (cases "i < length new1")
      case True
      with th have "remote (trace w @ take i new1) (new1 ! i) = Inl e"
        by (simp add: nth_append)
      with e1 True Inr show ?thesis by fastforce
    next
      case False
      with i th t1
      have "remote (trace w1 @ take (i - length new1) new2) (new2 ! (i - length new1)) = Inl e"
        by (simp add: nth_append)
      moreover from False i have "i - length new1 < length new2" by simp
      ultimately show ?thesis using e2 by blast
    qed
    with t1 t2 show ?thesis by (intro exI[of _ "new1 @ new2"]) simp
  qed
qed

lemmas surfaces_intros = surfaces_ret surfaces_lift surfaces_this_getClient surfaces_await_call
  surfaces_if surfaces_seq

lemma surfaces_try:
  assumes "surfaces remote body" "async (try_catch body ret) w = (p, w')"
  shows "\<exists>new. trace w' = trace w @ new \<and>
           (\<forall>i e. i < length new \<longrightarrow> remote (trace w @ take i new) (new ! i) = Inl e \<longrightarrow>
                  p = resolve_with e)"
proof -
  obtain r w1 where b: "body w = (r, w1)" by (cases "body w")
  with assms(1) obtain new where t: "trace w1 = trace w @ new"
    and e: "\<And>i e. i < length new \<Longrightarrow> remote (trace w @ take i new) (new ! i) = Inl e \<Longrightarrow> r = Inl e"
    unfolding surfaces_def by blast
  from b assms(2)
  have "w' = w1" "p = (case r of Inl e \<Rightarrow> resolve_with e | Inr v \<Rightarrow> resolve_with v)"
    by (auto simp add: async_def try_catch_def ret_def split: sum.splits)
  with t e show ?thesis by (intro exI[of _ new]) fastforce
qed

lemma surfaces_invoke:
  assumes "invoke remote this op w = (p, w')"
  shows "\<exists>new. trace w' = trace w @ new \<and>
           (\<forall>i e. i < length new \<longrightarrow> remote (trace w @ take i new) (new ! i) = Inl e \<longrightarrow>
                  p = resolve_with e)"
  using assms
  apply (cases op)
  apply (simp_all only: invoke.simps op_defs Let_def)
  apply (erule surfaces_try[rotated], intro surfaces_intros)+
  done

lemma resolve_with_plain: "\<not> is_thenable e \<Longrightarrow> resolve_with e = Resolved e"
  by (cases e) simp_all

text \<open>
  C2 as stated fails for an error value that is a thenable. The handler returns the caught
  value from an async function, and a returned thenable is adopted: here the client call
  of \<^verbatim>\<open>getTweet\<close> is rejected with a thenable that rejects, and the promise of the
  operation rejects.
\<close>

theorem thenable_error_rejects:
  "thenable_remote (trace (first_use example_env)) (0, SingleTweet ''20'')
     = Inl (JThenableReject (JStr ''later''))
   \<and> fst (invoke thenable_remote 0 (GetTweet ''20'') (first_use example_env))
     = Rejected (JStr ''later'')"
  by (simp add: getTweet_def eval_simps world_simps thenable_remote_def)

text \<open>
  C2, amended. Whenever one of the calls an operation makes on the underlying client is
  rejected with a value \<open>e\<close>, the operation returns \<open>e\<close> itself from its handler: not
  re-thrown, not wrapped, not translated. So the promise of the operation is resolved with
  \<open>e\<close>: when \<open>e\<close> is not a thenable the promise resolves (does not reject) and its result
  is \<open>e\<close>; when \<open>e\<close> is a thenable the promise adopts it and settles as the thenable does.
  The call is the \<open>i\<close>-th one the operation makes, answered by the remote side after the
  calls made before it.
\<close>

theorem caught_error_is_returned:
  assumes "i < length (calls_made remote this op w)"
    and "remote (trace w @ take i (calls_made remote this op w))
           (calls_made remote this op w ! i) = Inl e"
  shows "fst (invoke remote this op w) = resolve_with e
       \<and> (\<not> is_thenable e \<longrightarrow> fst (invoke remote this op w) = Resolved e)"
proof -
  obtain p w' where run: "invoke remote this op w = (p, w')"
    by (cases "invoke remote this op w")
  from surfaces_invoke[OF run] obtain new where t: "trace w' = trace w @ new"
    and e: "\<And>i e. i < length new \<Longrightarrow> remote (trace w @ take i new) (new ! i) = Inl e \<Longrightarrow>
              p = resolve_with e"
    by blast
  from t run have "calls_made remote this op w = new" by (simp add: calls_made_def)
  with assms e have "p = resolve_with e" by blast
  with run show ?thesis by (simp add: resolve_with_plain)
qed

text \<open>
  \<^verbatim>\<open>likeTweet\<close> on a remote side that answers \<^verbatim>\<open>me()\<close> and rejects the like: the second
  call is the rejected one, and its error, which is no thenable, is the result.
\<close>

theorem caught_error_is_returned_witness:
  "(1::nat) < length (calls_made only_me_remote 0 (LikeTweet ''20'') (first_use example_env))
   \<and> only_me_remote
        (trace (first_use example_env)
           @ take 1 (calls_made only_me_remote 0 (LikeTweet ''20'') (first_use example_env)))
        (calls_made only_me_remote 0 (LikeTweet ''20'') (first_use example_env) ! 1)
       = Inl (JError ''ApiRequestError'' ''Request failed'')
   \<and> \<not> is_thenable (JError ''ApiRequestError'' ''Request failed'')
   \<and> fst (invoke only_me_remote 0 (LikeTweet ''20'') (first_use example_env))
       = Resolved (JError ''ApiRequestError'' ''Request failed'')"
proof -
  have c: "calls_made only_me_remote 0 (LikeTweet ''20'') (first_use example_env)
             = [(0, Me), (0, Like (JStr ''7'') ''20'')]"
    by (simp add: likeTweet_def eval_simps world_simps only_me_remote_def)
  have h1: "(1::nat) < length (calls_made only_me_remote 0 (LikeTweet ''20'') (first_use example_env))"
    by (simp add: c)
  have h2: "only_me_remote
        (trace (first_use example_env)
           @ take 1 (calls_made only_me_remote 0 (LikeTweet ''20'') (first_use example_env)))
        (calls_made only_me_remote 0 (LikeTweet ''20'') (first_use example_env) ! 1)
       = Inl (JError ''ApiRequestError'' ''Request failed'')"
    by (simp add: c only_me_remote_def)
  have h3: "\<not> is_thenable (JError ''ApiRequestError'' ''Request failed'')" by simp
  from h1 h2 h3 caught_error_is_returned[OF h1 h2] show ?thesis by simp
qed


section \<open>One service object, one client\<close>

lemma frames_ret: "frames c (ret x)"
  by (simp add: frames_def ret_def)

lemma frames_lift: "frames c (lift x)"
  by (simp add: frames_def lift_def)

lemma frames_await_call: "frames c (await_call remote c r)"
  by (auto simp add: frames_def await_call_def)

lemma frames_if: "frames c a \<Longrightarrow> frames c b \<Longrightarrow> frames c (if t then a else b)"
  by simp

lemma frames_seq:
  assumes m: "frames c m" and f: "\<And>x. frames c (f x)"
  shows "frames c (seq m f)"
  unfolding frames_def
proof (intro allI impI)
  fix w r w'
  assume run: "seq m f w = (r, w')"
  obtain r1 w1 where m1: "m w = (r1, w1)" by (cases "m w")
  from m m1 obtain new1 where k1: "process_env w1 = process_env w"
      "static_instance w1 = static_instance w" "services w1 = services w" "apis w1 = apis w"
      "trace w1 = trace w @ new1" "\<forall>x\<in>set new1. fst x = c"
    unfolding frames_def by blast
  show "process_env w' = process_env w \<and> static_instance w' = static_instance w
        \<and> services w' = services w \<and> apis w' = apis w
        \<and> (\<exists>new. trace w' = trace w @ new \<and> (\<forall>x\<in>set new. fst x = c))"
  proof (cases r1)
    case (Inl e0)
    with run m1 have "w' = w1" by (simp add: seq_def)
    with k1 show ?thesis by simp
  next
    case (Inr x)
    with run m1 have f1: "f x w1 = (r, w')" by (simp add: seq_def)
    from f[of x] f1 obtain new2 where k2: "process_env w' = process_env w1"
        "static_instance w' = static_instance w1" "services w' = services w1" "apis w' = apis w1"
        "trace w' = trace w1 @ new2" "\<forall>x\<in>set new2. fst x = c"
      unfolding frames_def by blast
    from k1 k2 have "trace w' = trace w @ (new1 @ new2)" "\<forall>x\<in>set (new1 @ new2). fst x = c"
      by auto
    with k1 k2 show ?thesis by metis
  qed
qed

lemmas frames_intros = frames_ret frames_lift frames_await_call frames_if frames_seq

lemma frames_try:
  assumes body: "\<And>c. frames c (body c)"
    and run: "async (try_catch (seq (this_getClient this) body) ret) w = (p, w')"
  shows "\<exists>r w1. this_getClient this w = (r, w1)
           \<and> process_env w' = process_env w1 \<and> static_instance w' = static_instance w1
           \<and> services w' = services w1 \<and> apis w' = apis w1
           \<and> (\<exists>new. trace w' = trace w1 @ new
                 \<and> (case r of Inl e \<Rightarrow> new = [] | Inr c \<Rightarrow> \<forall>x\<in>set new. fst x = c))"
proof -
  obtain r w1 where g: "this_getClient this w = (r, w1)" by (cases "this_getClient this w")
  show ?thesis
  proof (cases r)
    case (Inl e)
    with g run have "w' = w1" by (simp add: facade_shape)
    with g Inl show ?thesis by simp
  next
    case (Inr c)
    obtain r2 w2 where b: "body c w1 = (r2, w2)" by (cases "body c w1")
    with g Inr run have "w' = w2" by (simp add: facade_shape split: sum.splits)
    with body[of c] b g Inr show ?thesis unfolding frames_def by fastforce
  qed
qed

lemma invoke_frames:
  assumes "invoke remote this op w = (p, w')"
  shows "\<exists>r w1. this_getClient this w = (r, w1)
           \<and> process_env w' = process_env w1 \<and> static_instance w' = static_instance w1
           \<and> services w' = services w1 \<and> apis w' = apis w1
           \<and> (\<exists>new. trace w' = trace w1 @ new
                 \<and> (case r of Inl e \<Rightarrow> new = [] | Inr c \<Rightarrow> \<forall>x\<in>set new. fst x = c))"
  using assms
  apply (cases op)
  apply (simp_all only: invoke.simps op_defs Let_def)
  apply (erule frames_try[rotated], intro frames_intros)+
  done

text \<open>An operation on a service whose client exists keeps the client and constructs none.\<close>

lemma step_ready:
  assumes "this < length (services w)" "client (services w ! this) = Some c"
    and "invoke remote this op w = (p, w')"
  shows "services w' = services w \<and> apis w' = apis w \<and> static_instance w' = static_instance w
       \<and> process_env w' = process_env w
       \<and> (\<exists>new. trace w' = trace w @ new \<and> (\<forall>x\<in>set new. fst x = c))"
  using invoke_frames[OF assms(3)] getClient_ready[OF assms(1,2)] this_getClient_valid[OF assms(1)]
  by auto

text \<open>The first operation with the credentials in place constructs one client and stores it.\<close>

lemma step_first:
  assumes "this < length (services w)" "client (services w ! this) = None"
    and "credentials_configured (process_env w)"
    and "invoke remote this op w = (p, w')"
  shows "services w' = (services w)[this := (services w ! this)\<lparr>client := Some (length (apis w))\<rparr>]
       \<and> length (apis w') = Suc (length (apis w)) \<and> static_instance w' = static_instance w
       \<and> process_env w' = process_env w
       \<and> (\<exists>new. trace w' = trace w @ new \<and> (\<forall>x\<in>set new. fst x = length (apis w)))"
  using invoke_frames[OF assms(4)] getClient_first[OF assms(1,2,3)] this_getClient_valid[OF assms(1)]
  by auto

lemma getInstance_settled: "settled w \<Longrightarrow> getInstance w = (0, w)"
  by (simp add: settled_def getInstance_def)

lemma getInstance_again: "getInstance (snd (getInstance w)) = getInstance w"
  by (cases "static_instance w") (simp_all add: getInstance_def Let_def)

lemma invoke_settled:
  assumes "settled w" "invoke remote 0 op w = (p, w')"
  shows "settled w'"
proof -
  from assms(1) have "0 < length (services w)" "client (services w ! 0) = Some 0"
    by (simp_all add: settled_def)
  from step_ready[OF this assms(2)] assms(1) show ?thesis
    by (fastforce simp add: settled_def)
qed

lemma run_settled:
  "settled w \<Longrightarrow> run remote ops w = (ps, w') \<Longrightarrow> settled w' \<and> (\<forall>x\<in>set ps. fst x = 0)"
proof (induction ops arbitrary: w ps w')
  case Nil
  then show ?case by simp
next
  case (Cons op ops)
  obtain p w2 where i: "invoke remote 0 op w = (p, w2)" by (cases "invoke remote 0 op w")
  obtain qs w3 where r: "run remote ops w2 = (qs, w3)" by (cases "run remote ops w2")
  from Cons.prems i r have eq: "ps = (0, p) # qs" "w' = w3"
    by (simp_all add: getInstance_settled)
  from invoke_settled[OF Cons.prems(1) i] have "settled w2" .
  from Cons.IH[OF this r] eq show ?case by simp
qed

lemma first_step_settled:
  assumes "credentials_configured e" "invoke remote 0 op (first_use e) = (p, w')"
  shows "settled w'"
proof -
  have w: "first_use e = \<lparr>process_env = e, static_instance = Some 0,
      services = [\<lparr>client = None\<rparr>], apis = [], trace = []\<rparr>"
    by (simp add: first_use_def getInstance_def initial_def)
  have "0 < length (services (first_use e))" "client (services (first_use e) ! 0) = None"
    "credentials_configured (process_env (first_use e))"
    using assms(1) by (simp_all add: w)
  from step_first[OF this assms(2)] show ?thesis
    by (fastforce simp add: settled_def w)
qed

text \<open>
  C3. With all four credentials present, after any non-empty sequence of operation calls
  from the start of the process (any operations, any order, any number) exactly one
  \<^verbatim>\<open>TwitterApi\<close> object has been constructed, the one service object holds it, every call
  of \<^verbatim>\<open>getInstance\<close> returned that service object, and every call on a client went to that
  one client. From any state: calling \<^verbatim>\<open>getInstance\<close> again gives the same object and
  changes nothing; and an operation on a service whose client is not null leaves the
  client reference as it is, constructs no client and calls only that client.
\<close>

theorem client_constructed_once:
  "(credentials_configured e \<and> ops \<noteq> [] \<longrightarrow>
      length (apis (snd (run remote ops (initial e)))) = 1
      \<and> static_instance (snd (run remote ops (initial e))) = Some 0
      \<and> services (snd (run remote ops (initial e))) = [\<lparr>client = Some 0\<rparr>]
      \<and> (\<forall>x\<in>set (fst (run remote ops (initial e))). fst x = 0)
      \<and> (\<forall>x\<in>set (trace (snd (run remote ops (initial e)))). fst x = 0))
   \<and> getInstance (snd (getInstance v)) = getInstance v
   \<and> (this < length (services v) \<and> client (services v ! this) = Some c \<longrightarrow>
        client (services (snd (invoke remote this op v)) ! this) = Some c
        \<and> apis (snd (invoke remote this op v)) = apis v
        \<and> static_instance (snd (invoke remote this op v)) = static_instance v
        \<and> (\<forall>x\<in>set (calls_made remote this op v). fst x = c))"
proof (intro conjI impI)
  assume a: "credentials_configured e \<and> ops \<noteq> []"
  obtain ps w where rn: "run remote ops (initial e) = (ps, w)"
    by (cases "run remote ops (initial e)")
  from a obtain op rest where ops: "ops = op # rest" by (cases ops) auto
  have g: "getInstance (initial e) = (0, first_use e)"
    by (simp add: first_use_def getInstance_def initial_def)
  obtain p w2 where i: "invoke remote 0 op (first_use e) = (p, w2)"
    by (cases "invoke remote 0 op (first_use e)")
  obtain qs w3 where r: "run remote rest w2 = (qs, w3)" by (cases "run remote rest w2")
  from rn ops g i r have eq: "ps = (0, p) # qs" "w = w3" by simp_all
  from first_step_settled[OF _ i] a have "settled w2" by simp
  from run_settled[OF this r] eq have s: "settled w" "\<forall>x\<in>set ps. fst x = 0" by simp_all
  from s rn show "length (apis (snd (run remote ops (initial e)))) = 1"
    "static_instance (snd (run remote ops (initial e))) = Some 0"
    "services (snd (run remote ops (initial e))) = [\<lparr>client = Some 0\<rparr>]"
    "\<forall>x\<in>set (fst (run remote ops (initial e))). fst x = 0"
    "\<forall>x\<in>set (trace (snd (run remote ops (initial e)))). fst x = 0"
    by (simp_all add: settled_def)
next
  show "getInstance (snd (getInstance v)) = getInstance v"
    by (rule getInstance_again)
next
  assume b: "this < length (services v) \<and> client (services v ! this) = Some c"
  obtain p v' where i: "invoke remote this op v = (p, v')" by (cases "invoke remote this op v")
  from b step_ready[OF _ _ i] have k: "services v' = services v" "apis v' = apis v"
    "static_instance v' = static_instance v"
    "\<exists>new. trace v' = trace v @ new \<and> (\<forall>x\<in>set new. fst x = c)" by simp_all
  from k i b show "client (services (snd (invoke remote this op v)) ! this) = Some c"
    "apis (snd (invoke remote this op v)) = apis v"
    "static_instance (snd (invoke remote this op v)) = static_instance v"
    "\<forall>x\<in>set (calls_made remote this op v). fst x = c"
    by (auto simp add: calls_made_def)
qed

text \<open>
  A session of three calls from the start of the process, and one more call in a state
  where the client exists.
\<close>

theorem client_constructed_once_witness:
  "credentials_configured example_env
   \<and> [GetTweet ''20'', LikeTweet ''20'', SearchTweets ''cats'' None] \<noteq> []
   \<and> 0 < length (services warm) \<and> client (services warm ! 0) = Some 0
   \<and> length (apis (snd (run ok_remote [GetTweet ''20'', LikeTweet ''20'', SearchTweets ''cats'' None]
        (initial example_env)))) = 1
   \<and> services (snd (run ok_remote [GetTweet ''20'', LikeTweet ''20'', SearchTweets ''cats'' None]
        (initial example_env))) = [\<lparr>client = Some 0\<rparr>]
   \<and> client (services (snd (invoke ok_remote 0 (LikeTweet ''20'') warm)) ! 0) = Some 0
   \<and> apis (snd (invoke ok_remote 0 (LikeTweet ''20'') warm)) = apis warm"
proof -
  have h1: "credentials_configured example_env"
    by (simp add: credentials_configured_def example_env_def truthy_string_def)
  have h2: "[GetTweet ''20'', LikeTweet ''20'', SearchTweets ''cats'' None] \<noteq> []" by simp
  have h3: "0 < length (services warm)" "client (services warm ! 0) = Some 0"
    by (simp_all add: warm_def)
  from h1 h2 h3
    client_constructed_once[of example_env
      "[GetTweet ''20'', LikeTweet ''20'', SearchTweets ''cats'' None]" ok_remote warm 0 0
      "LikeTweet ''20''"]
  show ?thesis by simp
qed


section \<open>Number of client calls\<close>

text \<open>
  C6 as stated fails: \<^verbatim>\<open>likeTweet\<close> calls the client twice, first \<^verbatim>\<open>me()\<close> for the
  identifier of the authenticated user and then \<^verbatim>\<open>like\<close> with it.
\<close>

theorem likeTweet_makes_two_calls:
  "calls_made ok_remote 0 (LikeTweet ''20'') (first_use example_env)
     = [(0, Me), (0, Like (JStr ''7'') ''20'')]"
  by (simp add: likeTweet_def eval_simps world_simps ok_remote_def)

text \<open>
  C6, amended. Once \<^verbatim>\<open>getClient\<close> has returned the client, the calls of an operation
  are these, all on that client. Every operation other than like, follow, unfollow and
  list-owned-lists, and \<^verbatim>\<open>postTweet\<close> without an image, makes exactly one call, the one
  of the table \<open>first_request\<close>. Like, follow, unfollow and list-owned-lists call \<^verbatim>\<open>me()\<close>
  first; when it is fulfilled and \<^verbatim>\<open>me.data.id\<close> can be read, the second call is
  \<^verbatim>\<open>like\<close>, \<^verbatim>\<open>follow\<close>, \<^verbatim>\<open>unfollow\<close> or \<^verbatim>\<open>listsOwned\<close> with that identifier, and
  otherwise \<^verbatim>\<open>me()\<close> is the only call. \<^verbatim>\<open>postTweet\<close> with an image calls
  \<^verbatim>\<open>uploadMedia\<close> first; when it is fulfilled, the second call is \<^verbatim>\<open>tweet\<close> with the text
  and the media identifier, and otherwise the upload is the only call.
\<close>

theorem client_calls_per_operation:
  assumes "fst (getClient this w) = Inr c"
  shows "(\<not> two_step op \<longrightarrow> calls_made remote this op w = [(c, first_request op)])
       \<and> (two_step op \<longrightarrow>
            calls_made remote this op w =
              (case passed_on op (remote (trace w) (c, first_request op)) of
                 None \<Rightarrow> [(c, first_request op)]
               | Some x \<Rightarrow> [(c, first_request op), (c, second_request op x)]))"
proof -
  from getClient_fst_trace[OF assms] obtain w1 where
    "getClient this w = (Inr c, w1)" "trace w1 = trace w" by blast
  then show ?thesis
    by (cases op) (auto simp add: op_defs run_simps Let_def split: sum.splits option.splits)
qed

text \<open>On first use: looking a post up is one call, liking it is \<^verbatim>\<open>me()\<close> and then the like.\<close>

theorem client_calls_per_operation_witness:
  "fst (getClient 0 (first_use example_env)) = Inr 0
   \<and> \<not> two_step (GetTweet ''20'') \<and> two_step (LikeTweet ''20'')
   \<and> calls_made ok_remote 0 (GetTweet ''20'') (first_use example_env) = [(0, SingleTweet ''20'')]
   \<and> calls_made ok_remote 0 (LikeTweet ''20'') (first_use example_env)
       = [(0, Me), (0, Like (JStr ''7'') ''20'')]"
  using getClient_first_use
    client_calls_per_operation[OF getClient_first_use, of "GetTweet ''20''" ok_remote]
    client_calls_per_operation[OF getClient_first_use, of "LikeTweet ''20''" ok_remote]
  by (simp add: ok_remote_def)


section \<open>The MIME type of an uploaded image\<close>

lemma str_includes_sublist: "str_includes s p = sublist p s"
  by (induction s) (simp_all add: sublist_Cons_right)

lemma mimeType_substring: "mimeType s = mime_by_substring s"
  by (simp add: mimeType_def mime_by_substring_def str_includes_sublist)

text \<open>
  In a string with no colon after its fifth character, a token that begins with
  \<^verbatim>\<open>data:\<close> can only occur at the very start.
\<close>

lemma sublist_data_prefix:
  assumes "CHR '':'' \<notin> set (drop 5 s)" and "sublist (''data:'' @ t) s"
  shows "prefix (''data:'' @ t) s"
proof -
  from assms(2) obtain ps ss where s: "s = ps @ (''data:'' @ t) @ ss"
    by (auto simp add: sublist_def)
  have "ps = []"
  proof (rule ccontr)
    assume "ps \<noteq> []"
    then have pos: "0 < length ps" by simp
    have ls: "length s = length ps + 5 + length t + length ss" by (simp add: s)
    have "length (drop 5 s) = length s - 5" by simp
    with pos ls have len: "length ps - 1 < length (drop 5 s)" by arith
    from ls have "5 \<le> length s" by arith
    then have "drop 5 s ! (length ps - 1) = s ! (5 + (length ps - 1))"
      by (rule nth_drop)
    also from pos have "5 + (length ps - 1) = length ps + 4" by simp
    also have "s ! (length ps + 4) = CHR '':''" by (simp add: s nth_append)
    finally have "drop 5 s ! (length ps - 1) = CHR '':''" .
    with len have "CHR '':'' \<in> set (drop 5 s)" by (metis nth_mem)
    with assms(1) show False by simp
  qed
  with s show ?thesis by simp
qed

lemma mime_prefix_when_no_later_colon:
  assumes "CHR '':'' \<notin> set (drop 5 s)"
  shows "mime_by_substring s = mime_by_prefix s"
proof -
  have "sublist ''data:image/png'' s = prefix ''data:image/png'' s"
    using sublist_data_prefix[OF assms, of "''image/png''"] by auto
  moreover have "sublist ''data:image/gif'' s = prefix ''data:image/gif'' s"
    using sublist_data_prefix[OF assms, of "''image/gif''"] by auto
  moreover have "sublist ''data:image/webp'' s = prefix ''data:image/webp'' s"
    using sublist_data_prefix[OF assms, of "''image/webp''"] by auto
  ultimately show ?thesis by (simp add: mime_by_substring_def mime_by_prefix_def)
qed

text \<open>
  C4 as stated fails: a string that is prefixed with \<^verbatim>\<open>data:image/gif\<close> and contains
  \<^verbatim>\<open>data:image/png\<close> further on is uploaded as png, because the tests are substring
  tests and the one for png comes first.
\<close>

theorem gif_prefix_uploaded_as_png:
  "prefix ''data:image/gif'' ''data:image/gif;base64,data:image/png''
   \<and> snd (hd (calls_made ok_remote 0
               (PostTweet ''hi'' (Some ''data:image/gif;base64,data:image/png''))
               (first_use example_env)))
     = UploadMedia (Buffer_from_base64 ''data:image/png'') Png ''tweet_image''"
  by (simp add: postTweet_def eval_simps world_simps ok_remote_def mimeType_def
      strip_data_uri_def is_word_char_def)

text \<open>
  C4, amended. For \<^verbatim>\<open>postTweet\<close> with a non-empty image string the first call is the
  media upload, and its MIME type is png when the string contains \<^verbatim>\<open>data:image/png\<close>,
  else gif when it contains \<^verbatim>\<open>data:image/gif\<close>, else webp when it contains
  \<^verbatim>\<open>data:image/webp\<close>, else jpeg. When the string has no colon after its fifth character
  (a data URI with a base64 payload, or bare base64 text) that is the table by prefix:
  png, gif, webp for the three prefixes and jpeg for no matching prefix.
\<close>

theorem upload_mime_type_by_substring:
  assumes "fst (getClient this w) = Inr c" and "img \<noteq> []"
  shows "hd (calls_made remote this (PostTweet t (Some img)) w) =
           (c, UploadMedia (Buffer_from_base64 (strip_data_uri img))
                 (mime_by_substring img) ''tweet_image'')
       \<and> (CHR '':'' \<notin> set (drop 5 img) \<longrightarrow> mime_by_substring img = mime_by_prefix img)"
proof -
  from getClient_fst_trace[OF assms(1)] obtain w1 where
    g: "getClient this w = (Inr c, w1)" "trace w1 = trace w" by blast
  with assms(2) show ?thesis
    by (auto simp add: postTweet_def run_simps truthy_string_def mimeType_substring
        mime_prefix_when_no_later_colon split: sum.splits)
qed

text \<open>A webp data URI, posted on first use.\<close>

theorem upload_mime_type_by_substring_witness:
  "fst (getClient 0 (first_use example_env)) = Inr 0
   \<and> ''data:image/webp;base64,UklGRg=='' \<noteq> []
   \<and> CHR '':'' \<notin> set (drop 5 ''data:image/webp;base64,UklGRg=='')
   \<and> hd (calls_made ok_remote 0 (PostTweet ''hi'' (Some ''data:image/webp;base64,UklGRg==''))
        (first_use example_env))
       = (0, UploadMedia (Buffer_from_base64 (strip_data_uri ''data:image/webp;base64,UklGRg==''))
               Webp ''tweet_image'')"
proof -
  have h2: "''data:image/webp;base64,UklGRg=='' \<noteq> []" by simp
  have h3: "CHR '':'' \<notin> set (drop 5 ''data:image/webp;base64,UklGRg=='')" by simp
  have m: "mime_by_prefix ''data:image/webp;base64,UklGRg=='' = Webp"
    by (simp add: mime_by_prefix_def)
  from getClient_first_use h2 h3 m
    upload_mime_type_by_substring[OF getClient_first_use h2, of ok_remote "''hi''"]
  show ?thesis by simp
qed


section \<open>The timeline of a user\<close>

text \<open>
  C7 as stated fails: on success \<^verbatim>\<open>getUserTweets\<close> does not return the posts of the
  response. It wraps them in an object with a message and returns the JSON text of that
  object, a string.
\<close>

theorem getUserTweets_rewraps_posts: \<open>
  fst (invoke posts_remote 0 (GetUserTweets ''42'' None None None) (first_use example_env))
    = Resolved (JStr ''{"result":[{"id":"1","text":"hello"}],"message":"Tweets fetched successfully"}'')
  \<and> fst (invoke posts_remote 0 (GetUserTweets ''42'' None None None) (first_use example_env))
    \<noteq> Resolved (JArr [JObj [(''id'', JStr ''1''), (''text'', JStr ''hello'')]])\<close>
  by (simp add: getUserTweets_def eval_simps world_simps posts_remote_def quote_string_def
      quote_char_def)

text \<open>
  C7, amended. When the timeline call resolves with a response whose \<^verbatim>\<open>data\<close> can be
  read, \<^verbatim>\<open>getUserTweets\<close> resolves with a string: the JSON text of the object
  \<^verbatim>\<open>{result: <the data>, message: "Tweets fetched successfully"}\<close>.
\<close>

theorem getUserTweets_returns_serialised_envelope:
  assumes "fst (getClient this w) = Inr c"
    and "remote (trace w)
           (c, UserTimeline u (case ex of None \<Rightarrow> [''retweets'', ''replies''] | Some x \<Rightarrow> x) (Integer 50) p)
         = Inr tweets"
    and "get_prop tweets ''data'' = Inr posts"
  shows "fst (invoke remote this (GetUserTweets u p ex m) w) =
     Resolved (JStr (''{'' @ join '',''
       (stringify_properties [(''result'', posts), (''message'', JStr ''Tweets fetched successfully'')])
       @ ''}''))"
proof -
  from getClient_fst_trace[OF assms(1)] obtain w1 where
    g: "getClient this w = (Inr c, w1)" "trace w1 = trace w" by blast
  with assms(2,3) show ?thesis
    by (simp add: getUserTweets_def run_simps)
qed

text \<open>The timeline of user 42 on first use, from a remote side with one post.\<close>

theorem getUserTweets_returns_serialised_envelope_witness:
  "fst (getClient 0 (first_use example_env)) = Inr 0
   \<and> posts_remote (trace (first_use example_env))
        (0, UserTimeline ''42'' (case None of None \<Rightarrow> [''retweets'', ''replies''] | Some x \<Rightarrow> x)
             (Integer 50) None)
       = Inr (JObj [(''data'', JArr [JObj [(''id'', JStr ''1''), (''text'', JStr ''hello'')]])])
   \<and> get_prop (JObj [(''data'', JArr [JObj [(''id'', JStr ''1''), (''text'', JStr ''hello'')]])]) ''data''
       = Inr (JArr [JObj [(''id'', JStr ''1''), (''text'', JStr ''hello'')]])
   \<and> fst (invoke posts_remote 0 (GetUserTweets ''42'' None None (Some (Integer 5))) (first_use example_env)) =
       Resolved (JStr (''{'' @ join '',''
         (stringify_properties
            [(''result'', JArr [JObj [(''id'', JStr ''1''), (''text'', JStr ''hello'')]]),
             (''message'', JStr ''Tweets fetched successfully'')])
         @ ''}''))"
proof -
  have h2: "posts_remote (trace (first_use example_env))
        (0, UserTimeline ''42'' (case None of None \<Rightarrow> [''retweets'', ''replies''] | Some x \<Rightarrow> x)
             (Integer 50) None)
       = Inr (JObj [(''data'', JArr [JObj [(''id'', JStr ''1''), (''text'', JStr ''hello'')]])])"
    by (simp add: posts_remote_def)
  have h3: "get_prop (JObj [(''data'', JArr [JObj [(''id'', JStr ''1''), (''text'', JStr ''hello'')]])]) ''data''
       = Inr (JArr [JObj [(''id'', JStr ''1''), (''text'', JStr ''hello'')]])"
    by simp
  from getClient_first_use h2 h3
    getUserTweets_returns_serialised_envelope[where remote = posts_remote and ex = None
      and m = "Some (Integer 5)", OF getClient_first_use h2 h3]
  show ?thesis by blast
qed

text \<open>
  C9 does not hold of the code. \<^verbatim>\<open>getUserTweets\<close> has the parameter \<^verbatim>\<open>maxResults\<close> and
  never reads it: called with the count 5, it asks the timeline for 50 results.
\<close>

theorem getUserTweets_max_results_fixed:
  "calls_made ok_remote 0 (GetUserTweets ''42'' None None (Some (Integer 5))) (first_use example_env)
     = [(0, UserTimeline ''42'' [''retweets'', ''replies''] (Integer 50) None)]"
  by (simp add: getUserTweets_def eval_simps world_simps ok_remote_def)

end
